theory Spec2Isabelle
  imports Main "HOL-Library.Word"
begin

section \<open>JavaScript values of \<open>src/pages/UserMenu.tsx\<close>\<close>

text \<open>
  A JavaScript string is a sequence of UTF-16 code units; \<open>value.length\<close> counts them and
  a regular expression without the \<open>u\<close> flag matches them one by one.
\<close>

type_synonym code_unit = "16 word"
type_synonym jsstring = "code_unit list"

text \<open>An ASCII literal of the source, as code units.\<close>

definition lit :: "string \<Rightarrow> jsstring" where
  "lit s = map (\<lambda>c. of_nat (of_char c)) s"

text \<open>
  The numbers the page computes with: \<open>NaN\<close>, or an integer (hours, minutes and minutes
  since midnight).
\<close>

datatype jsnum = NaN | Num int

fun js_mul :: "jsnum \<Rightarrow> jsnum \<Rightarrow> jsnum" where
  "js_mul (Num a) (Num b) = Num (a * b)"
| "js_mul _ _ = NaN"

fun js_add :: "jsnum \<Rightarrow> jsnum \<Rightarrow> jsnum" where
  "js_add (Num a) (Num b) = Num (a + b)"
| "js_add _ _ = NaN"

text \<open>\<open>a >= b\<close> and \<open>a <= b\<close>: false as soon as one side is \<open>NaN\<close>.\<close>

fun js_ge :: "jsnum \<Rightarrow> jsnum \<Rightarrow> bool" where
  "js_ge (Num a) (Num b) = (a \<ge> b)"
| "js_ge _ _ = False"

fun js_le :: "jsnum \<Rightarrow> jsnum \<Rightarrow> bool" where
  "js_le (Num a) (Num b) = (a \<le> b)"
| "js_le _ _ = False"

subsection \<open>Regular expressions\<close>

text \<open>
  Every regular expression of the file has the shape \<open>/^C q$/\<close>: one character class or
  class escape \<open>C\<close> with one quantifier \<open>q\<close> (\<open>+\<close>, \<open>*\<close> or \<open>{4}\<close>), anchored at both ends
  (no \<open>m\<close> flag, so \<open>$\<close> is the end of the input).
\<close>

datatype class_item =
    Range code_unit code_unit  \<comment> \<open>\<open>a-b\<close>\<close>
  | Single code_unit           \<comment> \<open>one literal character\<close>
  | Whitespace                 \<comment> \<open>\<open>\s\<close>\<close>
  | Digit                      \<comment> \<open>\<open>\d\<close>\<close>

text \<open>\<open>\s\<close> of ECMAScript: the WhiteSpace and LineTerminator code points.\<close>

definition is_js_whitespace :: "code_unit \<Rightarrow> bool" where
  "is_js_whitespace c =
     (c = 0x09 \<or> c = 0x0A \<or> c = 0x0B \<or> c = 0x0C \<or> c = 0x0D \<or> c = 0x20 \<or> c = 0xA0 \<or>
      c = 0x1680 \<or> (0x2000 \<le> c \<and> c \<le> 0x200A) \<or> c = 0x2028 \<or> c = 0x2029 \<or>
      c = 0x202F \<or> c = 0x205F \<or> c = 0x3000 \<or> c = 0xFEFF)"

definition is_digit :: "code_unit \<Rightarrow> bool" where
  "is_digit c = (0x30 \<le> c \<and> c \<le> 0x39)"

fun item_matches :: "class_item \<Rightarrow> code_unit \<Rightarrow> bool" where
  "item_matches (Range lo hi) c = (lo \<le> c \<and> c \<le> hi)"
| "item_matches (Single x) c = (c = x)"
| "item_matches Whitespace c = is_js_whitespace c"
| "item_matches Digit c = is_digit c"

definition class_matches :: "class_item list \<Rightarrow> code_unit \<Rightarrow> bool" where
  "class_matches cls c = list_ex (\<lambda>i. item_matches i c) cls"

text \<open>
  \<open>/^C{lo,hi}$/.test(s)\<close>: every code unit of \<open>s\<close> is consumed by one repetition of the
  class, at least \<open>lo\<close> and at most \<open>hi\<close> of them (\<open>None\<close>: no upper bound).
\<close>

fun regex_test :: "class_item list \<Rightarrow> nat \<Rightarrow> nat option \<Rightarrow> jsstring \<Rightarrow> bool" where
  "regex_test cls lo hi [] = (lo = 0)"
| "regex_test cls lo hi (c # cs) =
     (hi \<noteq> Some 0 \<and> class_matches cls c \<and>
      regex_test cls (lo - 1) (map_option (\<lambda>h. h - 1) hi) cs)"

text \<open>
  The class of \<open>validateName\<close>: \<open>A-Z\<close>, \<open>a-z\<close>, the three accented ranges U+00C0-U+00D6,
  U+00D8-U+00F6 and U+00F8-U+00FF (the source writes their end points as characters), \<open>\s\<close>.
\<close>

definition name_class :: "class_item list" where
  "name_class =
     [Range 0x41 0x5A, Range 0x61 0x7A, Range 0xC0 0xD6, Range 0xD8 0xF6, Range 0xF8 0xFF,
      Whitespace]"

text \<open>The same ranges, then \<open>0-9\s.,!?-\<close>.\<close>

definition observations_class :: "class_item list" where
  "observations_class =
     [Range 0x41 0x5A, Range 0x61 0x7A, Range 0xC0 0xD6, Range 0xD8 0xF6, Range 0xF8 0xFF,
      Range 0x30 0x39, Whitespace, Single 0x2E, Single 0x2C, Single 0x21, Single 0x3F,
      Single 0x2D]"

subsection \<open>Input validation functions\<close>

definition validateName :: "jsstring \<Rightarrow> bool" where
  "validateName v = regex_test name_class 1 None v"

definition validateRegistration :: "jsstring \<Rightarrow> bool" where
  "validateRegistration v = regex_test [Digit] 4 (Some 4) v"

definition validateObservations :: "jsstring \<Rightarrow> bool" where
  "validateObservations v = regex_test observations_class 0 None v"

subsection \<open>The day shown as today\<close>

text \<open>
  \<open>useState(() => { const day = new Date().getDay(); return day === 0 ? 6 : day; })\<close>,
  as a function of what \<open>getDay()\<close> returned.
\<close>

definition currentDay :: "int \<Rightarrow> int" where
  "currentDay day = (if day = 0 then 6 else day)"

section \<open>The page's state and its handlers\<close>

record Dish =
  dish_id :: jsstring
  dish_name :: jsstring
  description :: jsstring
  image_url :: jsstring
  day_of_week :: int

record CartItem =
  item_id :: jsstring
  item_name :: jsstring

record AdminSettings =
  settings_id :: jsstring
  opening_time :: jsstring
  closing_time :: jsstring

text \<open>
  The \<open>useState\<close> cells the handlers read and write (the three dish lists are only
  displayed and \<open>currentDay\<close> has no setter).
\<close>

record session =
  cart :: "CartItem list"
  settings :: "AdminSettings option"
  userName :: jsstring
  registration :: jsstring
  observations :: jsstring
  isStoreOpen :: bool
  isCartOpen :: bool

definition initial_session :: session where
  "initial_session =
     \<lparr>cart = [], settings = None, userName = [], registration = [], observations = [],
      isStoreOpen = False, isCartOpen = False\<rparr>"

datatype toast = ToastError jsstring | ToastSuccess jsstring

subsection \<open>Keystroke handlers\<close>

definition handleNameChange :: "jsstring \<Rightarrow> session \<Rightarrow> session" where
  "handleNameChange v st = (if v = [] \<or> validateName v then st\<lparr>userName := v\<rparr> else st)"

definition handleRegistrationChange :: "jsstring \<Rightarrow> session \<Rightarrow> session" where
  "handleRegistrationChange v st =
     (if v = [] \<or> (length v \<le> 4 \<and> regex_test [Digit] 0 None v)
      then st\<lparr>registration := v\<rparr> else st)"

definition handleObservationsChange :: "jsstring \<Rightarrow> session \<Rightarrow> session" where
  "handleObservationsChange v st =
     (if v = [] \<or> validateObservations v then st\<lparr>observations := v\<rparr> else st)"

subsection \<open>Settings and the open flag\<close>

text \<open>\<open>fetchSettings\<close>, given the \<open>data\<close> the store answered: \<open>if (data) setSettings(data)\<close>.\<close>

definition fetchSettings :: "AdminSettings option \<Rightarrow> session \<Rightarrow> session" where
  "fetchSettings data st = (case data of None \<Rightarrow> st | Some d \<Rightarrow> st\<lparr>settings := Some d\<rparr>)"

text \<open>\<open>s.split(':')\<close>: the pieces between the separators; the empty string gives one empty piece.\<close>

fun split_on :: "code_unit \<Rightarrow> jsstring \<Rightarrow> jsstring list" where
  "split_on sep [] = [[]]"
| "split_on sep (c # cs) =
     (if c = sep then [] # split_on sep cs
      else (case split_on sep cs of w # ws \<Rightarrow> (c # w) # ws | [] \<Rightarrow> [[c]]))"

definition dec_value :: "jsstring \<Rightarrow> int" where
  "dec_value s = foldl (\<lambda>a c. 10 * a + (uint c - 48)) 0 s"

text \<open>
  \<open>Number(s)\<close> on the pieces of a time of day: the empty string is \<open>0\<close>, a string of decimal
  digits is its value, and a string that is not numeric is \<open>NaN\<close>. \<open>Number\<close> also reads a
  sign, a fraction, an exponent, a radix prefix, \<open>Infinity\<close> and surrounding white space;
  those literals do not occur in a time written \<open>HH:MM\<close> or \<open>HH:MM:SS\<close> and are not
  modelled (they fall under \<open>NaN\<close> here).
\<close>

definition Number_js :: "jsstring \<Rightarrow> jsnum" where
  "Number_js s = (if s = [] then Num 0 else if list_all is_digit s then Num (dec_value s) else NaN)"

text \<open>
  \<open>const [h, m] = arr\<close>: a position past the end of the array gives \<open>undefined\<close>, which the
  arithmetic that follows turns into \<open>NaN\<close>.
\<close>

definition destructure :: "jsnum list \<Rightarrow> nat \<Rightarrow> jsnum" where
  "destructure arr i = (if i < length arr then arr ! i else NaN)"

text \<open>What \<open>new Date()\<close> answers to the three getters the page calls.\<close>

record date_now =
  getHours :: int
  getMinutes :: int
  getDay :: int

definition checkStoreStatus :: "date_now \<Rightarrow> session \<Rightarrow> session" where
  "checkStoreStatus now st =
     (case settings st of
        None \<Rightarrow> st
      | Some s \<Rightarrow>
          (let currentTime = getHours now * 60 + getMinutes now;
               dayOfWeek = getDay now
           in if dayOfWeek = 0 then st\<lparr>isStoreOpen := False\<rparr>
              else
                (let opening = map Number_js (split_on 0x3A (opening_time s));
                     closing = map Number_js (split_on 0x3A (closing_time s));
                     openHours = destructure opening 0;
                     openMinutes = destructure opening 1;
                     closeHours = destructure closing 0;
                     closeMinutes = destructure closing 1;
                     openingTime = js_add (js_mul openHours (Num 60)) openMinutes;
                     closingTime = js_add (js_mul closeHours (Num 60)) closeMinutes
                 in st\<lparr>isStoreOpen :=
                        js_ge (Num currentTime) openingTime \<and>
                        js_le (Num currentTime) closingTime\<rparr>)))"

subsection \<open>The cart\<close>

definition msg_fechado :: jsstring where
  "msg_fechado = lit ''Restaurante fechado no momento''"

definition msg_ja_no_carrinho :: jsstring where
  "msg_ja_no_carrinho = lit ''Item j'' @ [0xE1] @ lit '' est'' @ [0xE1] @ lit '' no carrinho''"

definition msg_adicionado :: jsstring where
  "msg_adicionado = lit ''Item adicionado ao carrinho''"

definition msg_removido :: jsstring where
  "msg_removido = lit ''Item removido do carrinho''"

definition addToCart :: "Dish \<Rightarrow> session \<Rightarrow> session \<times> toast list" where
  "addToCart dish st =
     (if \<not> isStoreOpen st then (st, [ToastError msg_fechado])
      else if list_ex (\<lambda>item. item_id item = dish_id dish) (cart st)
      then (st, [ToastError msg_ja_no_carrinho])
      else (st\<lparr>cart := cart st @ [\<lparr>item_id = dish_id dish, item_name = dish_name dish\<rparr>],
               isCartOpen := True\<rparr>,
            [ToastSuccess msg_adicionado]))"

definition removeFromCart :: "jsstring \<Rightarrow> session \<Rightarrow> session \<times> toast list" where
  "removeFromCart i st =
     (st\<lparr>cart := filter (\<lambda>item. item_id item \<noteq> i) (cart st)\<rparr>, [ToastSuccess msg_removido])"

subsection \<open>Submitting the order\<close>

definition msg_nome :: jsstring where
  "msg_nome = lit ''Por favor, insira um nome v'' @ [0xE1] @ lit ''lido (apenas letras)''"

definition msg_matricula :: jsstring where
  "msg_matricula =
     lit ''Por favor, insira uma matr'' @ [0xED] @ lit ''cula v'' @ [0xE1] @
     lit ''lida (4 d'' @ [0xED] @ lit ''gitos)''"

definition msg_observacoes :: jsstring where
  "msg_observacoes =
     lit ''Por favor, insira observa'' @ [0xE7, 0xF5] @ lit ''es v'' @ [0xE1] @
     lit ''lidas (apenas texto e pontua'' @ [0xE7, 0xE3] @ lit ''o b'' @ [0xE1] @ lit ''sica)''"

definition msg_carrinho_vazio :: jsstring where
  "msg_carrinho_vazio = lit ''Adicione itens ao carrinho''"

definition msg_sucesso :: jsstring where
  "msg_sucesso = lit ''Pedido realizado com sucesso!''"

definition msg_erro :: jsstring where
  "msg_erro = lit ''Erro ao realizar pedido''"

text \<open>
  What an awaited call on the store gives back: the promise resolves to \<open>{data, error}\<close>
  (each may be \<open>null\<close>), or it rejects.
\<close>

datatype pg_error = PostgrestError jsstring

datatype 'd outcome = Resolved "'d option" "pg_error option" | Rejected

text \<open>
  The writes the page issues: \<open>from('orders').insert([{user_name, registration,
  observations}]).select().single()\<close> and \<open>from('order_items').insert(orderItems)\<close>, whose
  rows are \<open>{order_id, dish_id}\<close>; and a delete, which the store offers as well.
\<close>

datatype 'oid store_call =
    InsertOrder jsstring jsstring jsstring
  | InsertOrderItems "('oid \<times> jsstring) list"
  | DeleteOrder 'oid

text \<open>
  \<open>handleSubmitOrder\<close>, given the outcomes of its two awaited writes. The \<open>data\<close> of the
  first is the created row, of which the handler reads \<open>id\<close>. The result is the state
  after the handler, the toasts it raised and the writes it issued, in order. Every
  \<open>throw\<close> inside the \<open>try\<close>, a rejected promise and the \<open>TypeError\<close> of \<open>order.id\<close> on
  \<open>null\<close> (the cart is not empty there, so the callback of \<open>cart.map\<close> runs) all end in the
  one \<open>catch\<close>. The handler reads the state when it is called and calls its setters only
  after the second \<open>await\<close>, each with a constant; a failed attempt calls none.
\<close>

definition handleSubmitOrder ::
  "'oid outcome \<Rightarrow> unit outcome \<Rightarrow> session \<Rightarrow> session \<times> toast list \<times> 'oid store_call list"
where
  "handleSubmitOrder orderRes itemsRes st =
     (if userName st = [] \<or> \<not> validateName (userName st)
      then (st, [ToastError msg_nome], [])
      else if registration st = [] \<or> \<not> validateRegistration (registration st)
      then (st, [ToastError msg_matricula], [])
      else if observations st \<noteq> [] \<and> \<not> validateObservations (observations st)
      then (st, [ToastError msg_observacoes], [])
      else if length (cart st) = 0
      then (st, [ToastError msg_carrinho_vazio], [])
      else
        (let insertOrder = InsertOrder (userName st) (registration st) (observations st)
         in case orderRes of
              Rejected \<Rightarrow> (st, [ToastError msg_erro], [insertOrder])
            | Resolved order orderError \<Rightarrow>
                if orderError \<noteq> None then (st, [ToastError msg_erro], [insertOrder])
                else
                  (case order of
                     None \<Rightarrow> (st, [ToastError msg_erro], [insertOrder])
                   | Some order_id \<Rightarrow>
                       (let orderItems = map (\<lambda>item. (order_id, item_id item)) (cart st);
                            writes = [insertOrder, InsertOrderItems orderItems]
                        in case itemsRes of
                             Rejected \<Rightarrow> (st, [ToastError msg_erro], writes)
                           | Resolved _ itemsError \<Rightarrow>
                               if itemsError \<noteq> None then (st, [ToastError msg_erro], writes)
                               else
                                 (st\<lparr>cart := [], userName := [], registration := [],
                                     observations := [], isCartOpen := False\<rparr>,
                                  [ToastSuccess msg_sucesso], writes)))))"

subsection \<open>Runs of the page\<close>

text \<open>
  Everything that changes the state after the first render: a keystroke in one of the
  three fields, an answer to \<open>fetchSettings\<close>, a run of \<open>checkStoreStatus\<close> (from the effect
  or the 60 second interval), the buttons of the dishes and of the cart, the two buttons
  that open and close the cart panel, and a submission with the outcomes of its writes.
\<close>

datatype 'oid event =
    NameChange jsstring
  | RegistrationChange jsstring
  | ObservationsChange jsstring
  | SettingsFetched "AdminSettings option"
  | StatusChecked date_now
  | AddClicked Dish
  | RemoveClicked jsstring
  | CartPanelSet bool
  | SubmitClicked "'oid outcome" "unit outcome"

fun step :: "'oid event \<Rightarrow> session \<Rightarrow> session" where
  "step (NameChange v) st = handleNameChange v st"
| "step (RegistrationChange v) st = handleRegistrationChange v st"
| "step (ObservationsChange v) st = handleObservationsChange v st"
| "step (SettingsFetched d) st = fetchSettings d st"
| "step (StatusChecked now) st = checkStoreStatus now st"
| "step (AddClicked dish) st = fst (addToCart dish st)"
| "step (RemoveClicked i) st = fst (removeFromCart i st)"
| "step (CartPanelSet b) st = st\<lparr>isCartOpen := b\<rparr>"
| "step (SubmitClicked orderRes itemsRes) st = fst (handleSubmitOrder orderRes itemsRes st)"

fun run :: "'oid event list \<Rightarrow> session \<Rightarrow> session" where
  "run [] st = st"
| "run (e # es) st = run es (step e st)"

section \<open>Closed forms used to state the properties\<close>

text \<open>The code units that \<open>validateName\<close>'s class admits, written out.\<close>

definition is_name_char :: "code_unit \<Rightarrow> bool" where
  "is_name_char c =
     ((0x41 \<le> c \<and> c \<le> 0x5A) \<or> (0x61 \<le> c \<and> c \<le> 0x7A) \<or> (0xC0 \<le> c \<and> c \<le> 0xD6) \<or>
      (0xD8 \<le> c \<and> c \<le> 0xF6) \<or> (0xF8 \<le> c \<and> c \<le> 0xFF) \<or> is_js_whitespace c)"

text \<open>
  The reading of \<open>isValidName\<close> in the specification's words, for comparison with
  \<open>validateName\<close>: non-empty, and every character is a Unicode letter or a space (U+0020).
  \<open>unicode_letter_latin\<close> lists the code points of general category L from U+0000 to
  U+024F (Basic Latin, Latin-1 Supplement, Latin Extended-A and Latin Extended-B, the
  last two being letters throughout). Unicode has letters beyond U+024F; the table stops
  there, and the comparison below is made at code points inside it.
\<close>

definition unicode_letter_latin :: "code_unit \<Rightarrow> bool" where
  "unicode_letter_latin c =
     ((0x41 \<le> c \<and> c \<le> 0x5A) \<or> (0x61 \<le> c \<and> c \<le> 0x7A) \<or> c = 0xAA \<or> c = 0xB5 \<or> c = 0xBA \<or>
      (0xC0 \<le> c \<and> c \<le> 0xD6) \<or> (0xD8 \<le> c \<and> c \<le> 0xF6) \<or> (0xF8 \<le> c \<and> c \<le> 0x24F))"

definition spec_isValidName :: "jsstring \<Rightarrow> bool" where
  "spec_isValidName s = (s \<noteq> [] \<and> list_all (\<lambda>c. unicode_letter_latin c \<or> c = 0x20) s)"

text \<open>
  A time of day as the settings row holds it: two digits of hours, a colon, two digits of
  minutes, and possibly a colon and more (the seconds) after them.
\<close>

definition two_digits :: "nat \<Rightarrow> jsstring" where
  "two_digits n = [of_nat (48 + n div 10), of_nat (48 + n mod 10)]"

definition hhmm :: "nat \<Rightarrow> nat \<Rightarrow> jsstring" where
  "hhmm h m = two_digits h @ [0x3A] @ two_digits m"

definition written_as :: "jsstring \<Rightarrow> nat \<Rightarrow> nat \<Rightarrow> bool" where
  "written_as s h m =
     (h < 24 \<and> m < 60 \<and> take 5 s = hhmm h m \<and> (length s = 5 \<or> (5 < length s \<and> s ! 5 = 0x3A)))"

section \<open>Properties\<close>

subsection \<open>Regular expressions in closed form\<close>

lemma regex_test_unbounded:
  "regex_test cls lo None s \<longleftrightarrow> lo \<le> length s \<and> list_all (class_matches cls) s"
  by (induction s arbitrary: lo) auto

lemma regex_test_bounded:
  "regex_test cls lo (Some hi) s \<longleftrightarrow>
     lo \<le> length s \<and> length s \<le> hi \<and> list_all (class_matches cls) s"
  by (induction s arbitrary: lo hi) auto

lemma class_matches_name: "class_matches name_class = is_name_char"
  by (rule ext) (simp add: class_matches_def name_class_def is_name_char_def)

lemma class_matches_digit: "class_matches [Digit] = is_digit"
  by (rule ext) (simp add: class_matches_def)

lemma class_matches_digit_at: "class_matches [Digit] c = is_digit c"
  by (simp add: class_matches_def)

lemma validateName_iff: "validateName s \<longleftrightarrow> s \<noteq> [] \<and> list_all is_name_char s"
  by (cases s) (simp_all add: validateName_def regex_test_unbounded class_matches_name)

lemma validateRegistration_iff:
  "validateRegistration s \<longleftrightarrow> length s = 4 \<and> list_all is_digit s"
  by (auto simp: validateRegistration_def regex_test_bounded class_matches_digit)

lemma digit_not_name_char: "is_digit c \<Longrightarrow> \<not> is_name_char c"
  by (auto simp: is_digit_def is_name_char_def is_js_whitespace_def word_le_nat_alt)

subsection \<open>The validators\<close>

text \<open>
  C4 (as the code has it). \<open>validateName s\<close> holds if and only if \<open>s\<close> is non-empty and
  every code unit of \<open>s\<close> is one of \<open>A-Z\<close>, \<open>a-z\<close>, U+00C0-U+00D6, U+00D8-U+00F6,
  U+00F8-U+00FF or a character of \<open>\s\<close> (space, tab, line feed and the other white space
  and line terminators). An accepted string holds no digit and no code unit outside that
  class; a rejected non-empty string holds a code unit outside it.
\<close>

theorem validateName_class:
  "(validateName s \<longleftrightarrow> s \<noteq> [] \<and> list_all is_name_char s) \<and>
   (validateName s \<longrightarrow> \<not> list_ex is_digit s \<and> \<not> list_ex (\<lambda>c. \<not> is_name_char c) s) \<and>
   (s \<noteq> [] \<and> \<not> validateName s \<longrightarrow> list_ex (\<lambda>c. \<not> is_name_char c) s)"
  by (auto simp: validateName_iff list_all_iff list_ex_iff dest: digit_not_name_char)

theorem validateName_class_witness:
  "validateName [0x4A, 0x6F, 0xE3, 0x6F, 0x20, 0x53] \<and>
   \<not> list_ex is_digit [0x4A, 0x6F, 0xE3, 0x6F, 0x20, 0x53] \<and>
   lit ''A1'' \<noteq> [] \<and> \<not> validateName (lit ''A1'') \<and>
   list_ex (\<lambda>c. \<not> is_name_char c) (lit ''A1'')"
  using validateName_class [of "[0x4A, 0x6F, 0xE3, 0x6F, 0x20, 0x53]"]
    validateName_class [of "lit ''A1''"]
  by (simp add: is_name_char_def is_js_whitespace_def is_digit_def lit_def)

text \<open>
  C4 as the specification words it fails in both directions: a line feed is accepted
  though it is neither a letter nor a space, and the letter U+0142 (l with stroke) is
  rejected.
\<close>

theorem validateName_not_letters_or_space:
  "validateName [0x0A] \<and> \<not> spec_isValidName [0x0A] \<and>
   \<not> validateName [0x142] \<and> spec_isValidName [0x142]"
  by (simp add: validateName_iff is_name_char_def is_js_whitespace_def spec_isValidName_def
      unicode_letter_latin_def)

subsection \<open>The day shown as today\<close>

text \<open>
  C10. \<open>getDay()\<close> answers a day from 0 (Sunday) to 6; the day the page marks as today is
  then between 1 and 6: on Sunday it is 6 (Saturday), and on every other day it is the
  day itself.
\<close>

theorem currentDay_range:
  "(0 \<le> day \<and> day \<le> 6 \<longrightarrow> 1 \<le> currentDay day \<and> currentDay day \<le> 6) \<and>
   currentDay 0 = 6 \<and>
   (day \<noteq> 0 \<longrightarrow> currentDay day = day)"
  by (simp add: currentDay_def)

theorem currentDay_range_witness:
  "(0::int) \<le> 0 \<and> (0::int) \<le> 6 \<and> 1 \<le> currentDay 0 \<and> currentDay 0 \<le> 6 \<and> currentDay 0 = 6 \<and>
   (3::int) \<noteq> 0 \<and> currentDay 3 = 3 \<and> 1 \<le> currentDay 3 \<and> currentDay 3 \<le> 6 \<and>
   (1::int) \<noteq> 0 \<and> currentDay 1 = 1 \<and> (6::int) \<noteq> 0 \<and> currentDay 6 = 6"
  using currentDay_range [of 0] currentDay_range [of 3] currentDay_range [of 1]
    currentDay_range [of 6]
  by simp

subsection \<open>Keystrokes and submission\<close>

lemma keystroke_digits: "regex_test [Digit] 0 None v \<longleftrightarrow> list_all is_digit v"
  by (simp add: regex_test_unbounded class_matches_digit)

text \<open>
  C5 (as the code has it). A keystroke that would make the draft \<open>v\<close> is accepted, for the
  name and for the notes, if and only if \<open>v\<close> is empty or the field's submission-time
  validator accepts \<open>v\<close>. For the registration it is accepted if and only if \<open>v\<close> has at
  most four code units, all decimal digits, whereas the submission-time validator accepts
  exactly the strings of four decimal digits.
\<close>

theorem keystroke_acceptance:
  "(v \<noteq> userName st \<longrightarrow>
      (userName (handleNameChange v st) = v \<longleftrightarrow> v = [] \<or> validateName v)) \<and>
   (v \<noteq> observations st \<longrightarrow>
      (observations (handleObservationsChange v st) = v \<longleftrightarrow> v = [] \<or> validateObservations v)) \<and>
   (v \<noteq> registration st \<longrightarrow>
      (registration (handleRegistrationChange v st) = v \<longleftrightarrow>
         length v \<le> 4 \<and> list_all is_digit v)) \<and>
   (validateRegistration v \<longleftrightarrow> length v = 4 \<and> list_all is_digit v)"
proof -
  have "v \<noteq> registration st \<longrightarrow>
      (registration (handleRegistrationChange v st) = v \<longleftrightarrow> length v \<le> 4 \<and> list_all is_digit v)"
    by (cases v) (auto simp: handleRegistrationChange_def keystroke_digits class_matches_digit_at)
  moreover have "v \<noteq> userName st \<longrightarrow>
      (userName (handleNameChange v st) = v \<longleftrightarrow> v = [] \<or> validateName v)"
    by (auto simp: handleNameChange_def)
  moreover have "v \<noteq> observations st \<longrightarrow>
      (observations (handleObservationsChange v st) = v \<longleftrightarrow> v = [] \<or> validateObservations v)"
    by (auto simp: handleObservationsChange_def)
  ultimately show ?thesis
    using validateRegistration_iff by blast
qed

theorem keystroke_acceptance_witness:
  "lit ''123'' \<noteq> userName initial_session \<and>
   userName (handleNameChange (lit ''123'') initial_session) \<noteq> lit ''123'' \<and>
   \<not> validateName (lit ''123'') \<and>
   lit ''123'' \<noteq> observations initial_session \<and>
   observations (handleObservationsChange (lit ''123'') initial_session) = lit ''123'' \<and>
   validateObservations (lit ''123'') \<and>
   lit ''123'' \<noteq> registration initial_session \<and>
   registration (handleRegistrationChange (lit ''123'') initial_session) = lit ''123'' \<and>
   \<not> validateRegistration (lit ''123'')"
  using keystroke_acceptance [of "lit ''123''" initial_session]
  by (simp add: initial_session_def lit_def validateName_iff is_name_char_def
      is_js_whitespace_def is_digit_def validateObservations_def observations_class_def
      class_matches_def)

text \<open>
  C5 as the specification words it fails for the registration: the keystroke check
  accepts the draft \<open>12\<close>, which is not empty and which \<open>validateRegistration\<close> rejects.
\<close>

theorem registration_keystroke_differs:
  "registration (handleRegistrationChange (lit ''12'') initial_session) = lit ''12'' \<and>
   lit ''12'' \<noteq> registration initial_session \<and>
   lit ''12'' \<noteq> [] \<and> \<not> validateRegistration (lit ''12'')"
  by (simp add: handleRegistrationChange_def keystroke_digits validateRegistration_iff
      initial_session_def lit_def is_digit_def class_matches_digit_at)

subsection \<open>Submission: validation\<close>

lemma messages_distinct:
  "distinct [msg_nome, msg_matricula, msg_observacoes, msg_carrinho_vazio, msg_erro]"
  by (simp add: msg_nome_def msg_matricula_def msg_observacoes_def msg_carrinho_vazio_def
      msg_erro_def lit_def)

text \<open>
  C7. \<open>handleSubmitOrder\<close> checks, in this order, that the name is present and valid, that
  the registration is present and valid, that the notes are empty or valid, and that
  the cart is not empty. The first check that fails raises its own error toast, the only
  toast of the attempt; the state is left as it was and no write is issued, whatever the
  later checks would have said. The four messages differ from one another. With an
  invalid name and an empty cart, the toast is the one of the name.
\<close>

theorem submit_first_failure_wins:
  "(userName st = [] \<or> \<not> validateName (userName st) \<longrightarrow>
      handleSubmitOrder r1 r2 st = (st, [ToastError msg_nome], [])) \<and>
   (userName st \<noteq> [] \<and> validateName (userName st) \<and>
    (registration st = [] \<or> \<not> validateRegistration (registration st)) \<longrightarrow>
      handleSubmitOrder r1 r2 st = (st, [ToastError msg_matricula], [])) \<and>
   (userName st \<noteq> [] \<and> validateName (userName st) \<and>
    registration st \<noteq> [] \<and> validateRegistration (registration st) \<and>
    observations st \<noteq> [] \<and> \<not> validateObservations (observations st) \<longrightarrow>
      handleSubmitOrder r1 r2 st = (st, [ToastError msg_observacoes], [])) \<and>
   (userName st \<noteq> [] \<and> validateName (userName st) \<and>
    registration st \<noteq> [] \<and> validateRegistration (registration st) \<and>
    (observations st = [] \<or> validateObservations (observations st)) \<and> cart st = [] \<longrightarrow>
      handleSubmitOrder r1 r2 st = (st, [ToastError msg_carrinho_vazio], [])) \<and>
   ((userName st = [] \<or> \<not> validateName (userName st)) \<and> cart st = [] \<longrightarrow>
      handleSubmitOrder r1 r2 st = (st, [ToastError msg_nome], [])) \<and>
   distinct [msg_nome, msg_matricula, msg_observacoes, msg_carrinho_vazio]"
proof -
  have "distinct [msg_nome, msg_matricula, msg_observacoes, msg_carrinho_vazio]"
    using messages_distinct by simp
  then show ?thesis
    by (simp add: handleSubmitOrder_def)
qed

theorem submit_first_failure_wins_witness:
  "\<not> validateName (userName (initial_session\<lparr>userName := lit ''J0''\<rparr>)) \<and>
   cart (initial_session\<lparr>userName := lit ''J0''\<rparr>) = [] \<and>
   handleSubmitOrder (Resolved (Some (77::nat)) None) (Resolved None None)
       (initial_session\<lparr>userName := lit ''J0''\<rparr>) =
     (initial_session\<lparr>userName := lit ''J0''\<rparr>, [ToastError msg_nome], []) \<and>
   userName initial_session = [] \<and>
   handleSubmitOrder (Resolved (Some (77::nat)) None) (Resolved None None) initial_session =
     (initial_session, [ToastError msg_nome], []) \<and>
   validateName (userName (initial_session\<lparr>userName := lit ''Ana'', registration := lit ''12a4''\<rparr>)) \<and>
   \<not> validateRegistration
       (registration (initial_session\<lparr>userName := lit ''Ana'', registration := lit ''12a4''\<rparr>)) \<and>
   handleSubmitOrder (Resolved (Some (77::nat)) None) (Resolved None None)
       (initial_session\<lparr>userName := lit ''Ana'', registration := lit ''12a4''\<rparr>) =
     (initial_session\<lparr>userName := lit ''Ana'', registration := lit ''12a4''\<rparr>,
      [ToastError msg_matricula], []) \<and>
   validateRegistration
       (registration (initial_session\<lparr>userName := lit ''Ana'', registration := lit ''1234''\<rparr>)) \<and>
   handleSubmitOrder (Resolved (Some (77::nat)) None) (Resolved None None)
       (initial_session\<lparr>userName := lit ''Ana'', registration := lit ''1234''\<rparr>) =
     (initial_session\<lparr>userName := lit ''Ana'', registration := lit ''1234''\<rparr>,
      [ToastError msg_carrinho_vazio], []) \<and>
   \<not> validateObservations (observations (initial_session\<lparr>userName := lit ''Ana'',
       registration := lit ''1234'', observations := lit ''a;b''\<rparr>)) \<and>
   handleSubmitOrder (Resolved (Some (77::nat)) None) (Resolved None None)
       (initial_session\<lparr>userName := lit ''Ana'', registration := lit ''1234'',
          observations := lit ''a;b''\<rparr>) =
     (initial_session\<lparr>userName := lit ''Ana'', registration := lit ''1234'',
        observations := lit ''a;b''\<rparr>, [ToastError msg_observacoes], [])"
  using
    submit_first_failure_wins [of "initial_session\<lparr>userName := lit ''J0''\<rparr>"
      "Resolved (Some (77::nat)) None" "Resolved None None"]
    submit_first_failure_wins [of initial_session
      "Resolved (Some (77::nat)) None" "Resolved None None"]
    submit_first_failure_wins [of
      "initial_session\<lparr>userName := lit ''Ana'', registration := lit ''12a4''\<rparr>"
      "Resolved (Some (77::nat)) None" "Resolved None None"]
    submit_first_failure_wins [of
      "initial_session\<lparr>userName := lit ''Ana'', registration := lit ''1234''\<rparr>"
      "Resolved (Some (77::nat)) None" "Resolved None None"]
    submit_first_failure_wins [of
      "initial_session\<lparr>userName := lit ''Ana'', registration := lit ''1234'',
         observations := lit ''a;b''\<rparr>"
      "Resolved (Some (77::nat)) None" "Resolved None None"]
  by (simp add: initial_session_def lit_def validateName_iff is_name_char_def
      is_js_whitespace_def validateRegistration_iff is_digit_def validateObservations_def
      observations_class_def class_matches_def)

subsection \<open>Submission: the two writes\<close>

text \<open>
  C1. With valid fields and a non-empty cart, when the insert of the order succeeds
  (it resolves with the created row and no error) and the insert of the items fails
  (its promise rejects, or resolves with an error), the handler raises the one error
  toast \<open>Erro ao realizar pedido\<close>, the same as when the first insert fails, and leaves
  the whole state as it was: cart, name, registration, notes and the cart panel. The
  writes it issued are the two inserts and nothing else: no delete of the order.
\<close>

theorem items_failure_keeps_session:
  assumes "userName st \<noteq> []" and "validateName (userName st)"
    and "registration st \<noteq> []" and "validateRegistration (registration st)"
    and "observations st = [] \<or> validateObservations (observations st)"
    and "cart st \<noteq> []"
    and "itemsRes = Rejected \<or> itemsRes = Resolved d (Some e)"
    and "orderRes = Rejected \<or> orderRes = Resolved d' (Some e')"
  shows "handleSubmitOrder (Resolved (Some order_id) None) itemsRes st =
           (st, [ToastError msg_erro],
            [InsertOrder (userName st) (registration st) (observations st),
             InsertOrderItems (map (\<lambda>item. (order_id, item_id item)) (cart st))]) \<and>
         handleSubmitOrder orderRes r2 st =
           (st, [ToastError msg_erro],
            [InsertOrder (userName st) (registration st) (observations st)])"
  using assms by (auto simp: handleSubmitOrder_def)

text \<open>
  Scenario D of the specification: name \<open>Joao Silva\<close> (its third letter U+00E3), registration
  \<open>1234\<close>, no notes, the cart holding the dish \<open>o1\<close>; the order is created with id 77 and
  the insert of the items fails.
\<close>

theorem items_failure_keeps_session_witness:
  "handleSubmitOrder (Resolved (Some (77::nat)) None)
       (Resolved None (Some (PostgrestError (lit ''violates foreign key constraint''))))
       (initial_session\<lparr>cart := [\<lparr>item_id = lit ''o1'', item_name = lit ''Feijoada''\<rparr>],
          userName := [0x4A, 0x6F, 0xE3, 0x6F, 0x20, 0x53, 0x69, 0x6C, 0x76, 0x61],
          registration := lit ''1234'', isStoreOpen := True, isCartOpen := True\<rparr>) =
     (initial_session\<lparr>cart := [\<lparr>item_id = lit ''o1'', item_name = lit ''Feijoada''\<rparr>],
          userName := [0x4A, 0x6F, 0xE3, 0x6F, 0x20, 0x53, 0x69, 0x6C, 0x76, 0x61],
          registration := lit ''1234'', isStoreOpen := True, isCartOpen := True\<rparr>,
      [ToastError msg_erro],
      [InsertOrder [0x4A, 0x6F, 0xE3, 0x6F, 0x20, 0x53, 0x69, 0x6C, 0x76, 0x61] (lit ''1234'') [],
       InsertOrderItems [(77, lit ''o1'')]]) \<and>
   handleSubmitOrder (Rejected :: nat outcome) Rejected
       (initial_session\<lparr>cart := [\<lparr>item_id = lit ''o1'', item_name = lit ''Feijoada''\<rparr>],
          userName := [0x4A, 0x6F, 0xE3, 0x6F, 0x20, 0x53, 0x69, 0x6C, 0x76, 0x61],
          registration := lit ''1234'', isStoreOpen := True, isCartOpen := True\<rparr>) =
     (initial_session\<lparr>cart := [\<lparr>item_id = lit ''o1'', item_name = lit ''Feijoada''\<rparr>],
          userName := [0x4A, 0x6F, 0xE3, 0x6F, 0x20, 0x53, 0x69, 0x6C, 0x76, 0x61],
          registration := lit ''1234'', isStoreOpen := True, isCartOpen := True\<rparr>,
      [ToastError msg_erro],
      [InsertOrder [0x4A, 0x6F, 0xE3, 0x6F, 0x20, 0x53, 0x69, 0x6C, 0x76, 0x61] (lit ''1234'') []])"
  using items_failure_keeps_session [of
      "initial_session\<lparr>cart := [\<lparr>item_id = lit ''o1'', item_name = lit ''Feijoada''\<rparr>],
          userName := [0x4A, 0x6F, 0xE3, 0x6F, 0x20, 0x53, 0x69, 0x6C, 0x76, 0x61],
          registration := lit ''1234'', isStoreOpen := True, isCartOpen := True\<rparr>"
      "Resolved None (Some (PostgrestError (lit ''violates foreign key constraint'')))"
      None "PostgrestError (lit ''violates foreign key constraint'')"
      "Rejected :: nat outcome" None "PostgrestError []" 77 Rejected]
  by (simp add: initial_session_def lit_def validateName_iff is_name_char_def
      is_js_whitespace_def validateRegistration_iff is_digit_def)

text \<open>
  C8. With valid fields and a non-empty cart, when both inserts succeed (the first
  resolves with the created row and no error, the second with no error), the handler
  empties the cart, resets name, registration and notes to the empty string, closes the
  cart panel and raises the success toast.
\<close>

theorem both_writes_succeed_commits:
  assumes "userName st \<noteq> []" and "validateName (userName st)"
    and "registration st \<noteq> []" and "validateRegistration (registration st)"
    and "observations st = [] \<or> validateObservations (observations st)"
    and "cart st \<noteq> []"
  shows "handleSubmitOrder (Resolved (Some order_id) None) (Resolved d None) st =
           (st\<lparr>cart := [], userName := [], registration := [], observations := [],
               isCartOpen := False\<rparr>,
            [ToastSuccess msg_sucesso],
            [InsertOrder (userName st) (registration st) (observations st),
             InsertOrderItems (map (\<lambda>item. (order_id, item_id item)) (cart st))])"
  using assms by (auto simp: handleSubmitOrder_def)

text \<open>Scenario C of the specification: as above, and both inserts succeed.\<close>

theorem both_writes_succeed_commits_witness:
  "handleSubmitOrder (Resolved (Some (77::nat)) None) (Resolved None None)
       (initial_session\<lparr>cart := [\<lparr>item_id = lit ''o1'', item_name = lit ''Feijoada''\<rparr>],
          userName := [0x4A, 0x6F, 0xE3, 0x6F, 0x20, 0x53, 0x69, 0x6C, 0x76, 0x61],
          registration := lit ''1234'', isStoreOpen := True, isCartOpen := True\<rparr>) =
     (initial_session\<lparr>isStoreOpen := True\<rparr>,
      [ToastSuccess msg_sucesso],
      [InsertOrder [0x4A, 0x6F, 0xE3, 0x6F, 0x20, 0x53, 0x69, 0x6C, 0x76, 0x61] (lit ''1234'') [],
       InsertOrderItems [(77, lit ''o1'')]])"
  using both_writes_succeed_commits [of
      "initial_session\<lparr>cart := [\<lparr>item_id = lit ''o1'', item_name = lit ''Feijoada''\<rparr>],
          userName := [0x4A, 0x6F, 0xE3, 0x6F, 0x20, 0x53, 0x69, 0x6C, 0x76, 0x61],
          registration := lit ''1234'', isStoreOpen := True, isCartOpen := True\<rparr>" 77 None]
  by (simp add: initial_session_def lit_def validateName_iff is_name_char_def
      is_js_whitespace_def validateRegistration_iff is_digit_def)

subsection \<open>The open flag\<close>

lemma split_on_nonempty: "split_on sep xs \<noteq> []"
  by (induction xs) (auto split: list.splits)

lemma split_on_none: "sep \<notin> set xs \<Longrightarrow> split_on sep xs = [xs]"
  by (induction xs) auto

lemma split_on_append: "split_on sep (xs @ sep # ys) = split_on sep xs @ split_on sep ys"
  by (induction xs) (auto split: list.splits simp: split_on_nonempty)

lemma digit_unit: "d < 10 \<Longrightarrow> is_digit (of_nat (48 + d))"
  by (simp add: is_digit_def word_le_nat_alt unat_word_ariths unat_of_nat)

lemma digit_uint: "d < 10 \<Longrightarrow> uint (of_nat (48 + d) :: 16 word) = 48 + int d"
  by (simp add: uint_nat unat_word_ariths unat_of_nat)

lemma digit_not_colon: "d < 10 \<Longrightarrow> (of_nat (48 + d) :: 16 word) \<noteq> 0x3A"
  using digit_uint[of d] by auto

lemma Number_two_digits:
  assumes "n < 100"
  shows "Number_js (two_digits n) = Num (int n)"
proof -
  have q: "n div 10 < 10" and r: "n mod 10 < 10"
    using assms by simp_all
  have "10 * int (n div 10) + int (n mod 10) = int n"
    by presburger
  then show ?thesis
    using digit_unit [OF q] digit_unit [OF r] digit_uint [OF q] digit_uint [OF r]
    by (simp add: Number_js_def two_digits_def dec_value_def)
qed

lemma two_digits_no_colon: "n < 100 \<Longrightarrow> 0x3A \<notin> set (two_digits n)"
  using digit_not_colon [of "n div 10"] digit_not_colon [of "n mod 10"]
  by (auto simp: two_digits_def)

lemma length_hhmm: "length (hhmm h m) = 5"
  by (simp add: hhmm_def two_digits_def)

lemma split_hhmm:
  assumes "h < 100" and "m < 100"
  shows "split_on 0x3A (hhmm h m) = [two_digits h, two_digits m]"
  using split_on_append [of "0x3A" "two_digits h" "two_digits m"]
    split_on_none [OF two_digits_no_colon [OF assms(1)]]
    split_on_none [OF two_digits_no_colon [OF assms(2)]]
  by (simp add: hhmm_def)

lemma split_hhmm_more:
  assumes "h < 100" and "m < 100"
  shows "split_on 0x3A (hhmm h m @ 0x3A # r) = two_digits h # two_digits m # split_on 0x3A r"
  using split_on_append [of "0x3A" "hhmm h m" r] split_hhmm [OF assms]
  by simp

lemma written_as_cases:
  assumes "written_as s h m"
  shows "s = hhmm h m \<or> (\<exists>r. s = hhmm h m @ 0x3A # r)"
proof (cases "length s = 5")
  case True
  then show ?thesis using assms by (simp add: written_as_def)
next
  case False
  then have l: "5 < length s" and c: "s ! 5 = 0x3A" and t: "take 5 s = hhmm h m"
    using assms by (auto simp: written_as_def)
  have "s = take 5 s @ drop 5 s" by simp
  moreover have "drop 5 s = s ! 5 # drop 6 s"
    using l by (simp add: Cons_nth_drop_Suc [symmetric])
  ultimately have "s = hhmm h m @ 0x3A # drop 6 s"
    using c t by simp
  then show ?thesis by blast
qed

lemma written_as_split:
  assumes "written_as s h m"
  shows "\<exists>rest. map Number_js (split_on 0x3A s) = Num (int h) # Num (int m) # rest"
proof -
  have h: "h < 100" and m: "m < 100"
    using assms by (simp_all add: written_as_def)
  from written_as_cases [OF assms] show ?thesis
  proof
    assume "s = hhmm h m"
    then show ?thesis
      by (simp add: split_hhmm [OF h m] Number_two_digits [OF h] Number_two_digits [OF m])
  next
    assume "\<exists>r. s = hhmm h m @ 0x3A # r"
    then obtain r where "s = hhmm h m @ 0x3A # r" ..
    then show ?thesis
      by (simp add: split_hhmm_more [OF h m] Number_two_digits [OF h] Number_two_digits [OF m])
  qed
qed

lemma checkStoreStatus_window:
  assumes "settings st = Some W" and "getDay now \<noteq> 0"
    and "written_as (opening_time W) oh om" and "written_as (closing_time W) ch cm"
  shows "isStoreOpen (checkStoreStatus now st) \<longleftrightarrow>
           int oh * 60 + int om \<le> getHours now * 60 + getMinutes now \<and>
           getHours now * 60 + getMinutes now \<le> int ch * 60 + int cm"
proof -
  obtain ro where
    o: "map Number_js (split_on 0x3A (opening_time W)) = Num (int oh) # Num (int om) # ro"
    using written_as_split [OF assms(3)] ..
  obtain rc where
    c: "map Number_js (split_on 0x3A (closing_time W)) = Num (int ch) # Num (int cm) # rc"
    using written_as_split [OF assms(4)] ..
  show ?thesis
    using assms(1,2) by (simp add: checkStoreStatus_def Let_def o c destructure_def)
qed

lemma scenario_A:
  "isStoreOpen (checkStoreStatus \<lparr>getHours = h, getMinutes = m, getDay = 1\<rparr>
      (initial_session\<lparr>settings := Some \<lparr>settings_id = lit ''1'',
         opening_time = lit ''09:00'', closing_time = lit ''14:00''\<rparr>\<rparr>)) \<longleftrightarrow>
   540 \<le> h * 60 + m \<and> h * 60 + m \<le> 840"
  by (simp add: checkStoreStatus_def Let_def destructure_def lit_def Number_js_def
      is_digit_def dec_value_def initial_session_def)

text \<open>
  C3. With the window loaded, on any day but Sunday, and with the opening and closing
  times written as times of day (\<open>HH:MM\<close>, seconds may follow), \<open>checkStoreStatus\<close> sets
  the open flag to true if and only if the current minute of the day,
  \<open>getHours() * 60 + getMinutes()\<close>, lies between \<open>oh * 60 + om\<close> and \<open>ch * 60 + cm\<close>, both
  bounds included (whether or not opening is before closing). For the window
  09:00-14:00 on a Monday: closed at 08:59, open at 09:00 and at 14:00, closed at 14:01.
\<close>

theorem checkStoreStatus_inclusive_window:
  "(settings st = Some W \<and> getDay now \<noteq> 0 \<and>
    written_as (opening_time W) oh om \<and> written_as (closing_time W) ch cm \<longrightarrow>
      (isStoreOpen (checkStoreStatus now st) \<longleftrightarrow>
         int oh * 60 + int om \<le> getHours now * 60 + getMinutes now \<and>
         getHours now * 60 + getMinutes now \<le> int ch * 60 + int cm)) \<and>
   \<not> isStoreOpen (checkStoreStatus \<lparr>getHours = 8, getMinutes = 59, getDay = 1\<rparr>
      (initial_session\<lparr>settings := Some \<lparr>settings_id = lit ''1'',
         opening_time = lit ''09:00'', closing_time = lit ''14:00''\<rparr>\<rparr>)) \<and>
   isStoreOpen (checkStoreStatus \<lparr>getHours = 9, getMinutes = 0, getDay = 1\<rparr>
      (initial_session\<lparr>settings := Some \<lparr>settings_id = lit ''1'',
         opening_time = lit ''09:00'', closing_time = lit ''14:00''\<rparr>\<rparr>)) \<and>
   isStoreOpen (checkStoreStatus \<lparr>getHours = 14, getMinutes = 0, getDay = 1\<rparr>
      (initial_session\<lparr>settings := Some \<lparr>settings_id = lit ''1'',
         opening_time = lit ''09:00'', closing_time = lit ''14:00''\<rparr>\<rparr>)) \<and>
   \<not> isStoreOpen (checkStoreStatus \<lparr>getHours = 14, getMinutes = 1, getDay = 1\<rparr>
      (initial_session\<lparr>settings := Some \<lparr>settings_id = lit ''1'',
         opening_time = lit ''09:00'', closing_time = lit ''14:00''\<rparr>\<rparr>))"
  using checkStoreStatus_window [of st W now oh om ch cm]
  by (simp add: scenario_A)

text \<open>
  The same window as the store returns a \<open>time\<close> column, with seconds, on a Wednesday at
  12:30 and at 14:01, starting from either value of the flag.
\<close>

theorem checkStoreStatus_inclusive_window_witness:
  "written_as (lit ''09:00:00'') 9 0 \<and> written_as (lit ''14:00:00'') 14 0 \<and>
   isStoreOpen (checkStoreStatus \<lparr>getHours = 12, getMinutes = 30, getDay = 3\<rparr>
      (initial_session\<lparr>settings := Some \<lparr>settings_id = lit ''1'',
         opening_time = lit ''09:00:00'', closing_time = lit ''14:00:00''\<rparr>\<rparr>)) \<and>
   \<not> isStoreOpen (checkStoreStatus \<lparr>getHours = 14, getMinutes = 1, getDay = 3\<rparr>
      (initial_session\<lparr>settings := Some \<lparr>settings_id = lit ''1'',
         opening_time = lit ''09:00:00'', closing_time = lit ''14:00:00''\<rparr>,
         isStoreOpen := True\<rparr>))"
  using
    checkStoreStatus_inclusive_window [of
      "initial_session\<lparr>settings := Some \<lparr>settings_id = lit ''1'',
         opening_time = lit ''09:00:00'', closing_time = lit ''14:00:00''\<rparr>\<rparr>"
      "\<lparr>settings_id = lit ''1'', opening_time = lit ''09:00:00'',
        closing_time = lit ''14:00:00''\<rparr>"
      "\<lparr>getHours = 12, getMinutes = 30, getDay = 3\<rparr>" 9 0 14 0]
    checkStoreStatus_inclusive_window [of
      "initial_session\<lparr>settings := Some \<lparr>settings_id = lit ''1'',
         opening_time = lit ''09:00:00'', closing_time = lit ''14:00:00''\<rparr>,
         isStoreOpen := True\<rparr>"
      "\<lparr>settings_id = lit ''1'', opening_time = lit ''09:00:00'',
        closing_time = lit ''14:00:00''\<rparr>"
      "\<lparr>getHours = 14, getMinutes = 1, getDay = 3\<rparr>" 9 0 14 0]
  by (simp add: written_as_def hhmm_def two_digits_def lit_def initial_session_def)

text \<open>
  C9. With the window loaded, whatever it is, and whatever the time, on a Sunday
  (\<open>getDay() = 0\<close>) \<open>checkStoreStatus\<close> sets the open flag to false.
\<close>

theorem sunday_is_closed:
  "settings st = Some W \<and> getDay now = 0 \<longrightarrow> \<not> isStoreOpen (checkStoreStatus now st)"
  by (simp add: checkStoreStatus_def)

theorem sunday_is_closed_witness:
  "settings (initial_session\<lparr>settings := Some \<lparr>settings_id = lit ''1'',
       opening_time = lit ''00:00'', closing_time = lit ''23:59''\<rparr>, isStoreOpen := True\<rparr>) =
     Some \<lparr>settings_id = lit ''1'', opening_time = lit ''00:00'', closing_time = lit ''23:59''\<rparr> \<and>
   getDay \<lparr>getHours = 12, getMinutes = 0, getDay = 0\<rparr> = 0 \<and>
   \<not> isStoreOpen (checkStoreStatus \<lparr>getHours = 12, getMinutes = 0, getDay = 0\<rparr>
      (initial_session\<lparr>settings := Some \<lparr>settings_id = lit ''1'',
         opening_time = lit ''00:00'', closing_time = lit ''23:59''\<rparr>, isStoreOpen := True\<rparr>))"
  using sunday_is_closed [of
      "initial_session\<lparr>settings := Some \<lparr>settings_id = lit ''1'',
         opening_time = lit ''00:00'', closing_time = lit ''23:59''\<rparr>, isStoreOpen := True\<rparr>"
      "\<lparr>settings_id = lit ''1'', opening_time = lit ''00:00'', closing_time = lit ''23:59''\<rparr>"
      "\<lparr>getHours = 12, getMinutes = 0, getDay = 0\<rparr>"]
  by (simp add: initial_session_def)

subsection \<open>What the handlers leave alone\<close>

lemma handleSubmitOrder_settings:
  "settings (fst (handleSubmitOrder r1 r2 st)) = settings st \<and>
   isStoreOpen (fst (handleSubmitOrder r1 r2 st)) = isStoreOpen st"
  by (simp add: handleSubmitOrder_def Let_def split: outcome.split option.split)

lemma handleSubmitOrder_cart:
  "cart (fst (handleSubmitOrder r1 r2 st)) = cart st \<or> cart (fst (handleSubmitOrder r1 r2 st)) = []"
  by (simp add: handleSubmitOrder_def Let_def split: outcome.split option.split)

lemma checkStoreStatus_cart: "cart (checkStoreStatus now st) = cart st"
  by (simp add: checkStoreStatus_def Let_def split: option.split)

lemma checkStoreStatus_settings: "settings (checkStoreStatus now st) = settings st"
  by (simp add: checkStoreStatus_def Let_def split: option.split)

lemma checkStoreStatus_absent: "settings st = None \<Longrightarrow> checkStoreStatus now st = st"
  by (simp add: checkStoreStatus_def)

lemma addToCart_distinct:
  "distinct (map item_id (cart st)) \<Longrightarrow> distinct (map item_id (cart (fst (addToCart dish st))))"
  by (auto simp: addToCart_def list_ex_iff)

lemma removeFromCart_distinct:
  "distinct (map item_id (cart st)) \<Longrightarrow> distinct (map item_id (cart (fst (removeFromCart i st))))"
  by (simp add: removeFromCart_def distinct_map_filter)

lemma step_distinct:
  assumes "distinct (map item_id (cart st))"
  shows "distinct (map item_id (cart (step e st)))"
proof (cases e)
  case (AddClicked dish)
  then show ?thesis using addToCart_distinct [OF assms] by simp
next
  case (RemoveClicked i)
  then show ?thesis using removeFromCart_distinct [OF assms] by simp
next
  case (SubmitClicked r1 r2)
  then show ?thesis using handleSubmitOrder_cart [of r1 r2 st] assms by auto
qed (use assms in \<open>simp_all add: handleNameChange_def handleRegistrationChange_def
    handleObservationsChange_def fetchSettings_def checkStoreStatus_cart split: option.split\<close>)

lemma run_distinct:
  "distinct (map item_id (cart st)) \<Longrightarrow> distinct (map item_id (cart (run es st)))"
  by (induction es arbitrary: st) (simp_all add: step_distinct)

lemma step_closed_without_window:
  assumes "settings st = None \<longrightarrow> \<not> isStoreOpen st"
  shows "settings (step e st) = None \<longrightarrow> \<not> isStoreOpen (step e st)"
proof (cases e)
  case (StatusChecked now)
  then show ?thesis
    using assms checkStoreStatus_absent [of st now] checkStoreStatus_settings [of now st]
    by auto
next
  case (SubmitClicked r1 r2)
  then show ?thesis using handleSubmitOrder_settings [of r1 r2 st] assms by simp
qed (use assms in \<open>auto simp: handleNameChange_def handleRegistrationChange_def
    handleObservationsChange_def fetchSettings_def addToCart_def removeFromCart_def
    split: option.split\<close>)

lemma run_closed_without_window:
  "(settings st = None \<longrightarrow> \<not> isStoreOpen st) \<Longrightarrow>
   settings (run es st) = None \<longrightarrow> \<not> isStoreOpen (run es st)"
  by (induction es arbitrary: st) (simp_all add: step_closed_without_window)

subsection \<open>The open flag while the window is absent\<close>

text \<open>
  C2. In every state the page reaches from its first render, at any time and on any
  day: while the window is absent (not yet loaded), the open flag is false after
  \<open>checkStoreStatus\<close>, whatever happened before. The check itself returns at once there
  and leaves the state as it is; the flag is false because it starts false, is set
  only by a check that found a window, and a loaded window is never unloaded.
\<close>

theorem absent_window_is_closed:
  "settings (run es initial_session) = None \<longrightarrow>
     \<not> isStoreOpen (checkStoreStatus now (run es initial_session)) \<and>
     checkStoreStatus now (run es initial_session) = run es initial_session"
  using run_closed_without_window [of initial_session es]
    checkStoreStatus_absent [of "run es initial_session" now]
  by (simp add: initial_session_def)

text \<open>
  At the first render, and after a run in which the name is typed, the check runs at
  noon on a Monday, the settings are asked for and not found, a dish is clicked and the
  order is submitted: the window is still absent, and the check at 09:00 on a Tuesday
  leaves the flag false.
\<close>

theorem absent_window_is_closed_witness:
  "settings (run ([] :: nat event list) initial_session) = None \<and>
   \<not> isStoreOpen (checkStoreStatus \<lparr>getHours = 12, getMinutes = 0, getDay = 1\<rparr>
        (run ([] :: nat event list) initial_session)) \<and>
   settings (run [NameChange (lit ''Ana''),
                  StatusChecked \<lparr>getHours = 12, getMinutes = 0, getDay = 1\<rparr>,
                  SettingsFetched None,
                  AddClicked \<lparr>dish_id = lit ''o1'', dish_name = lit ''Feijoada'',
                    description = [], image_url = [], day_of_week = 1\<rparr>,
                  SubmitClicked (Resolved (Some (77::nat)) None) (Resolved None None)]
             initial_session) = None \<and>
   \<not> isStoreOpen (checkStoreStatus \<lparr>getHours = 9, getMinutes = 0, getDay = 2\<rparr>
        (run [NameChange (lit ''Ana''),
                  StatusChecked \<lparr>getHours = 12, getMinutes = 0, getDay = 1\<rparr>,
                  SettingsFetched None,
                  AddClicked \<lparr>dish_id = lit ''o1'', dish_name = lit ''Feijoada'',
                    description = [], image_url = [], day_of_week = 1\<rparr>,
                  SubmitClicked (Resolved (Some (77::nat)) None) (Resolved None None)]
             initial_session))"
  using
    absent_window_is_closed [of "[] :: nat event list"
      "\<lparr>getHours = 12, getMinutes = 0, getDay = 1\<rparr>"]
    absent_window_is_closed [of
      "[NameChange (lit ''Ana''),
        StatusChecked \<lparr>getHours = 12, getMinutes = 0, getDay = 1\<rparr>,
        SettingsFetched None,
        AddClicked \<lparr>dish_id = lit ''o1'', dish_name = lit ''Feijoada'',
          description = [], image_url = [], day_of_week = 1\<rparr>,
        SubmitClicked (Resolved (Some (77::nat)) None) (Resolved None None)]"
      "\<lparr>getHours = 9, getMinutes = 0, getDay = 2\<rparr>"]
  by (simp add: initial_session_def handleNameChange_def checkStoreStatus_def
      fetchSettings_def addToCart_def handleSubmitOrder_def lit_def validateName_iff
      is_name_char_def is_js_whitespace_def)

subsection \<open>The cart\<close>

text \<open>
  C6. \<open>addToCart\<close> leaves the state, and so the cart, as it was when the open flag is
  false or when the cart already holds an entry with the dish's id; otherwise the cart
  becomes the old cart followed by the new entry of the dish's id and name. Adding a
  dish of the same id a second time leaves the cart, and its size, as the first call
  left them. In every state the page reaches from its first render no two entries of
  the cart have the same id.
\<close>

theorem addToCart_unique_ids:
  "(\<not> isStoreOpen st \<longrightarrow> fst (addToCart dish st) = st) \<and>
   (list_ex (\<lambda>item. item_id item = dish_id dish) (cart st) \<longrightarrow> fst (addToCart dish st) = st) \<and>
   (isStoreOpen st \<and> \<not> list_ex (\<lambda>item. item_id item = dish_id dish) (cart st) \<longrightarrow>
      cart (fst (addToCart dish st)) =
        cart st @ [\<lparr>item_id = dish_id dish, item_name = dish_name dish\<rparr>]) \<and>
   (dish_id dish' = dish_id dish \<longrightarrow>
      cart (fst (addToCart dish' (fst (addToCart dish st)))) = cart (fst (addToCart dish st)) \<and>
      length (cart (fst (addToCart dish' (fst (addToCart dish st))))) =
        length (cart (fst (addToCart dish st)))) \<and>
   distinct (map item_id (cart (run es initial_session)))"
proof -
  have "distinct (map item_id (cart (run es initial_session)))"
    using run_distinct [of initial_session es] by (simp add: initial_session_def)
  then show ?thesis
    by (auto simp: addToCart_def list_ex_iff)
qed

text \<open>
  Scenario B of the specification, from the first render: the window is loaded, the
  store is found open, \<open>x1\<close> is added, and added again.
\<close>

theorem addToCart_unique_ids_witness:
  "\<not> isStoreOpen initial_session \<and>
   fst (addToCart \<lparr>dish_id = lit ''x1'', dish_name = lit ''Feijoada'', description = [],
          image_url = [], day_of_week = 1\<rparr> initial_session) = initial_session \<and>
   cart (run [SettingsFetched (Some \<lparr>settings_id = lit ''1'', opening_time = lit ''09:00'',
                closing_time = lit ''14:00''\<rparr>),
              StatusChecked \<lparr>getHours = 12, getMinutes = 0, getDay = 1\<rparr>,
              AddClicked \<lparr>dish_id = lit ''x1'', dish_name = lit ''Feijoada'', description = [],
                image_url = [], day_of_week = 1\<rparr>,
              AddClicked \<lparr>dish_id = lit ''x1'', dish_name = lit ''Feijoada'', description = [],
                image_url = [], day_of_week = 1\<rparr>,
              SettingsFetched (None :: AdminSettings option),
              CartPanelSet False, SubmitClicked (Rejected :: nat outcome) Rejected]
          initial_session) =
     [\<lparr>item_id = lit ''x1'', item_name = lit ''Feijoada''\<rparr>] \<and>
   distinct (map item_id (cart (run
             [SettingsFetched (Some \<lparr>settings_id = lit ''1'', opening_time = lit ''09:00'',
                closing_time = lit ''14:00''\<rparr>),
              StatusChecked \<lparr>getHours = 12, getMinutes = 0, getDay = 1\<rparr>,
              AddClicked \<lparr>dish_id = lit ''x1'', dish_name = lit ''Feijoada'', description = [],
                image_url = [], day_of_week = 1\<rparr>,
              AddClicked \<lparr>dish_id = lit ''x1'', dish_name = lit ''Feijoada'', description = [],
                image_url = [], day_of_week = 1\<rparr>,
              SettingsFetched (None :: AdminSettings option),
              CartPanelSet False, SubmitClicked (Rejected :: nat outcome) Rejected]
          initial_session)))"
  using addToCart_unique_ids [of initial_session
      "\<lparr>dish_id = lit ''x1'', dish_name = lit ''Feijoada'', description = [],
        image_url = [], day_of_week = 1\<rparr>"
      "\<lparr>dish_id = lit ''x1'', dish_name = lit ''Feijoada'', description = [],
        image_url = [], day_of_week = 1\<rparr>"
      "[SettingsFetched (Some \<lparr>settings_id = lit ''1'', opening_time = lit ''09:00'',
                closing_time = lit ''14:00''\<rparr>),
              StatusChecked \<lparr>getHours = 12, getMinutes = 0, getDay = 1\<rparr>,
              AddClicked \<lparr>dish_id = lit ''x1'', dish_name = lit ''Feijoada'', description = [],
                image_url = [], day_of_week = 1\<rparr>,
              AddClicked \<lparr>dish_id = lit ''x1'', dish_name = lit ''Feijoada'', description = [],
                image_url = [], day_of_week = 1\<rparr>,
              SettingsFetched (None :: AdminSettings option),
              CartPanelSet False, SubmitClicked (Rejected :: nat outcome) Rejected]"]
  by (simp add: initial_session_def fetchSettings_def checkStoreStatus_def Let_def
      destructure_def Number_js_def is_digit_def dec_value_def addToCart_def
      handleSubmitOrder_def lit_def)

end
